theory Spec2Isabelle
  imports Complex_Main
begin

section \<open>JavaScript values\<close>

text \<open>
  The values that travel through \<^verbatim>\<open>src/transport.js\<close> and \<^verbatim>\<open>src/index.js\<close>: the
  result of \<^verbatim>\<open>JSON.parse\<close> on an inbound frame, the packet handed to \<^verbatim>\<open>send\<close>, the
  body of the credential response. A finite number is a rational (every finite double is
  one); \<^verbatim>\<open>NaN\<close> is a value of its own. An object is the list of its own properties; a
  property is read with \<open>map_of\<close>, so the first entry of a name is the one the object has.
\<close>

datatype jsval =
    JUndefined
  | JNull
  | JBool bool
  | JNum rat
  | JNaN
  | JStr string
  | JArr "jsval list"
  | JObj "(string \<times> jsval) list"

text \<open>Truthiness, as \<^verbatim>\<open>!v\<close> and \<^verbatim>\<open>if (v)\<close> read it.\<close>

fun truthy :: "jsval \<Rightarrow> bool" where
  "truthy JUndefined = False"
| "truthy JNull = False"
| "truthy (JBool b) = b"
| "truthy (JNum n) = (n \<noteq> 0)"
| "truthy JNaN = False"
| "truthy (JStr s) = (s \<noteq> [])"
| "truthy (JArr xs) = True"
| "truthy (JObj kvs) = True"

datatype js_error =
    TypeError
  | JsError string
  | EndpointsNotPresent jsval
  | Thrown nat
  | External string

text \<open>
  \<open>TypeError\<close> is what the runtime raises on a property read of \<^verbatim>\<open>null\<close> or
  \<^verbatim>\<open>undefined\<close> and on a call of something that is not a function; \<open>JsError m\<close> is
  \<^verbatim>\<open>new Error(m)\<close>; \<open>EndpointsNotPresent d\<close> is the error of \<^verbatim>\<open>checkCredentials\<close> whose
  message embeds \<^verbatim>\<open>JSON.stringify(data)\<close>; \<open>Thrown i\<close> is whatever subscriber callback \<open>i\<close>
  throws; \<open>External m\<close> is an error object made by the socket library or the HTTP helper.
\<close>

datatype 'a result = Return 'a | Throw js_error

text \<open>
  The property read \<^verbatim>\<open>v.name\<close>. It is used for the names \<^verbatim>\<open>channel\<close>, \<^verbatim>\<open>payload\<close>,
  \<^verbatim>\<open>disabled\<close>, \<^verbatim>\<open>pending\<close>, \<^verbatim>\<open>active\<close>, \<^verbatim>\<open>endpoints\<close> and \<^verbatim>\<open>ws\<close> only, none of which
  a primitive, an array or \<^verbatim>\<open>Object.prototype\<close> defines.
\<close>

fun get_prop :: "jsval \<Rightarrow> string \<Rightarrow> jsval result" where
  "get_prop JUndefined k = Throw TypeError"
| "get_prop JNull k = Throw TypeError"
| "get_prop (JObj kvs) k = Return (case map_of kvs k of None \<Rightarrow> JUndefined | Some v \<Rightarrow> v)"
| "get_prop v k = Return JUndefined"

section \<open>The transport, its sockets and the timer queue\<close>

text \<open>
  A subscriber callback is a function object: \<open>cb_id\<close> is its identity (what \<^verbatim>\<open>===\<close>
  compares) and \<open>raises\<close> tells for which payloads a call of it throws. A callback does
  nothing else to the transport.
\<close>

datatype callback = Callback (cb_id: nat) (raises: "jsval \<Rightarrow> bool")

text \<open>The second argument of \<^verbatim>\<open>unlisten\<close>: left out, a function, or any other value
  (the number \<^verbatim>\<open>listen\<close> returned, for one).\<close>

datatype handle = NoHandle | Fn callback | Handle jsval

type_synonym headers = "(string \<times> string) list"

datatype evname = EvOpen | EvError | EvClose | EvMessage | EvPing | EvPong

text \<open>What a socket emits. A message carries the outcome of \<^verbatim>\<open>JSON.parse(rawData)\<close>:
  \<open>None\<close> when the parser throws.\<close>

datatype ws_event =
    Open
  | Failure js_error
  | Closed
  | Message "jsval option"
  | PingFrame
  | PongFrame

fun event_name :: "ws_event \<Rightarrow> evname" where
  "event_name Open = EvOpen"
| "event_name (Failure e) = EvError"
| "event_name Closed = EvClose"
| "event_name (Message p) = EvMessage"
| "event_name PingFrame = EvPing"
| "event_name PongFrame = EvPong"

text \<open>The callback given to \<^verbatim>\<open>connect\<close>: one of the embedding program, the closure of
  the agent's \<^verbatim>\<open>start\<close>, or the logging closure that \<^verbatim>\<open>onClose\<close> and \<^verbatim>\<open>noResponse\<close>
  pass.\<close>

datatype connect_cb = CallerCb | StartCb | ReconnectCb

text \<open>
  The closures the transport registers on a socket. \<open>OnError n cb\<close> and \<open>OnOpen n cb\<close>
  are the two closures of the call of \<^verbatim>\<open>connect\<close> that made socket \<open>n\<close>;
  \<open>PongReceived t\<close> is the closure of the call of \<^verbatim>\<open>ping\<close> whose timeout has handle \<open>t\<close>.
  Every closure reads \<^verbatim>\<open>this.ws\<close> when it runs.
\<close>

datatype handler =
    OnError nat connect_cb
  | OnOpen nat connect_cb
  | OnClose
  | LogError
  | PingReply
  | OnMessage
  | PongReceived nat

text \<open>The calls made into the socket library, recorded on the socket they are made on,
  whether they succeed or not. \<open>WsSend p\<close> is \<^verbatim>\<open>send(JSON.stringify(p))\<close>.\<close>

datatype ws_call = WsSend jsval | WsPing | WsPong | WsClose | WsTerminate

record socket =
  url :: jsval
  hdrs :: headers
  readyState :: nat
  handlers :: "(evname \<times> bool \<times> handler) list"
  calls :: "ws_call list"

datatype timer = PingTimer | NoResponseTimer | StatusTimer

datatype diag =
    DInit
  | DConnect
  | DConnected
  | DSocketError
  | DPingReceived
  | DClosed
  | DReconnect "js_error option"
  | DNonJson
  | DBadMessage
  | DNoResponse
  | DPingSent
  | DPongReceived
  | DDisconnect

text \<open>
  The fields of \<^verbatim>\<open>WebsocketTransport\<close> (\<open>endpoint\<close> to \<open>listeners\<close>), the sockets made so
  far (\<^verbatim>\<open>this.ws\<close> is an index into them), the pending timers by handle, and what an
  observer sees: the \<^verbatim>\<open>debug\<close> lines, the subscriber calls \<open>(cb_id, payload)\<close>, and the
  calls of a \<^verbatim>\<open>connect\<close> callback that is not the transport's own, with their error
  argument. The registry \<^verbatim>\<open>this.listeners\<close> is a plain object; a channel name is taken not
  to be the name of a member of \<^verbatim>\<open>Object.prototype\<close>.
\<close>

record world =
  endpoint :: jsval
  headers :: headers
  ws :: "nat option"
  pingInterval :: "nat option"
  listeners :: "string \<Rightarrow> callback list option"
  sockets :: "socket list"
  timers :: "(nat \<times> timer) list"
  next_timer :: nat
  debug_log :: "diag list"
  invoked :: "(nat \<times> jsval) list"
  completions :: "(connect_cb \<times> js_error option) list"

definition debug :: "diag \<Rightarrow> world \<Rightarrow> world" where
  "debug d w = w\<lparr>debug_log := debug_log w @ [d]\<rparr>"

definition WebsocketTransport :: "jsval \<Rightarrow> headers \<Rightarrow> world" where
  "WebsocketTransport e h =
     debug DInit
       \<lparr>endpoint = e, headers = h, ws = None, pingInterval = None, listeners = Map.empty,
        sockets = [], timers = [], next_timer = 0, debug_log = [], invoked = [],
        completions = []\<rparr>"

text \<open>\<^verbatim>\<open>this.ws\<close> as a socket: \<open>None\<close> when the field is \<^verbatim>\<open>null\<close>.\<close>

definition this_ws :: "world \<Rightarrow> nat option" where
  "this_ws w = (case ws w of None \<Rightarrow> None
                | Some k \<Rightarrow> if k < length (sockets w) then Some k else None)"

definition upd_socket :: "nat \<Rightarrow> (socket \<Rightarrow> socket) \<Rightarrow> world \<Rightarrow> world" where
  "upd_socket k f w = w\<lparr>sockets := (sockets w)[k := f (sockets w ! k)]\<rparr>"

text \<open>
  A call into the library is recorded on its socket. The states are 0 CONNECTING, 1 OPEN,
  2 CLOSING, 3 CLOSED; \<^verbatim>\<open>close\<close> and \<^verbatim>\<open>terminate\<close> leave a socket that is not yet closed
  in state 2, and what the socket emits on their account comes later, as an event.
  \<^verbatim>\<open>send\<close> and \<^verbatim>\<open>ping\<close> work on an OPEN socket only: on any other, \<^verbatim>\<open>send\<close> raises
  \<open>not_open\<close> and \<^verbatim>\<open>ping\<close> calls its callback with \<open>not_open\<close> before it returns (see
  \<open>send\<close> and \<open>ping\<close> below). The constructor, \<^verbatim>\<open>pong\<close>, \<^verbatim>\<open>close\<close> and \<^verbatim>\<open>terminate\<close> are
  taken to return.
\<close>

definition not_open :: js_error where
  "not_open = External ''WebSocket is not open''"

definition lib_call :: "ws_call \<Rightarrow> socket \<Rightarrow> socket" where
  "lib_call c s =
     s\<lparr>calls := calls s @ [c],
       readyState := (if (c = WsClose \<or> c = WsTerminate) \<and> readyState s < 3 then 2
                      else readyState s)\<rparr>"

definition removeAllListeners :: "socket \<Rightarrow> socket" where
  "removeAllListeners s = s\<lparr>handlers := []\<rparr>"

text \<open>\<^verbatim>\<open>removeListener\<close> takes out the instance added last.\<close>

definition removeListener :: "evname \<times> bool \<times> handler \<Rightarrow> socket \<Rightarrow> socket" where
  "removeListener e s = s\<lparr>handlers := rev (remove1 e (rev (handlers s)))\<rparr>"

definition addListener :: "evname \<times> bool \<times> handler \<Rightarrow> socket \<Rightarrow> socket" where
  "addListener e s = s\<lparr>handlers := handlers s @ [e]\<rparr>"

definition setTimer :: "timer \<Rightarrow> world \<Rightarrow> world" where
  "setTimer t w = w\<lparr>timers := timers w @ [(next_timer w, t)], next_timer := next_timer w + 1\<rparr>"

definition clearTimeout :: "nat \<Rightarrow> world \<Rightarrow> world" where
  "clearTimeout h w = w\<lparr>timers := filter (\<lambda>(i, t). i \<noteq> h) (timers w)\<rparr>"

fun invoke_cb :: "connect_cb \<Rightarrow> js_error option \<Rightarrow> world \<Rightarrow> world" where
  "invoke_cb ReconnectCb err w = debug (DReconnect err) w"
| "invoke_cb cb err w = w\<lparr>completions := completions w @ [(cb, err)]\<rparr>"

subsection \<open>connect, onClose, ping\<close>

text \<open>
  \<^verbatim>\<open>connect\<close> (transport.js 25-52): a new socket for \<^verbatim>\<open>this.endpoint\<close> and
  \<^verbatim>\<open>this.headers\<close> becomes \<^verbatim>\<open>this.ws\<close>, with \<^verbatim>\<open>once('error')\<close>, \<^verbatim>\<open>once('open')\<close>,
  \<^verbatim>\<open>on('ping')\<close> and \<^verbatim>\<open>on('message')\<close> registered in that order.
\<close>

definition new_WebSocket :: "jsval \<Rightarrow> headers \<Rightarrow> socket" where
  "new_WebSocket u h = \<lparr>url = u, hdrs = h, readyState = 0, handlers = [], calls = []\<rparr>"

definition connect :: "connect_cb \<Rightarrow> world \<Rightarrow> world" where
  "connect cb w =
     (let w1 = debug DConnect w;
          k = length (sockets w1);
          s = (new_WebSocket (endpoint w1) (headers w1))
                \<lparr>handlers := [(EvError, True, OnError k cb), (EvOpen, True, OnOpen k cb),
                              (EvPing, False, PingReply), (EvMessage, False, OnMessage)]\<rparr>
      in w1\<lparr>ws := Some k, sockets := sockets w1 @ [s]\<rparr>)"

text \<open>\<^verbatim>\<open>onClose\<close> (57-62).\<close>

definition onClose :: "world \<Rightarrow> jsval result \<times> world" where
  "onClose w =
     (let w1 = debug DClosed w in
      case this_ws w1 of
        None \<Rightarrow> (Throw TypeError, w1)
      | Some k \<Rightarrow>
          (Return JUndefined,
           connect ReconnectCb
             (upd_socket k (\<lambda>s. removeAllListeners (lib_call WsTerminate s)) w1)))"

text \<open>\<^verbatim>\<open>noResponse\<close>, the closure of \<^verbatim>\<open>ping\<close> (84-89), for the timeout with handle \<open>t\<close>.\<close>

definition noResponse :: "nat \<Rightarrow> world \<Rightarrow> jsval result \<times> world" where
  "noResponse t w =
     (let w1 = debug DNoResponse (clearTimeout t w) in
      case this_ws w1 of
        None \<Rightarrow> (Throw TypeError, w1)
      | Some k \<Rightarrow>
          (Return JUndefined, connect ReconnectCb (upd_socket k (lib_call WsTerminate) w1)))"

text \<open>The callback given to \<^verbatim>\<open>this.ws.ping\<close> (92-95), called by the library with the
  error of the send, if any.\<close>

definition ping_sent :: "nat \<Rightarrow> js_error option \<Rightarrow> world \<Rightarrow> jsval result \<times> world" where
  "ping_sent t err w =
     (case err of Some e \<Rightarrow> noResponse t w | None \<Rightarrow> (Return JUndefined, debug DPingSent w))"

text \<open>
  \<^verbatim>\<open>ping\<close> (83-100): arm the 5 second timeout, send the probe, listen for the pong on
  \<^verbatim>\<open>this.ws\<close>. On an OPEN socket the callback of the probe comes later (the event
  \<open>PingSent\<close>). On a socket that is not OPEN the library calls it with an error inside
  the call: \<^verbatim>\<open>noResponse\<close> has run when \<^verbatim>\<open>this.ws.ping\<close> returns, and the pong listener
  goes on the socket that is \<^verbatim>\<open>this.ws\<close> by then.
\<close>

definition ping :: "world \<Rightarrow> jsval result \<times> world" where
  "ping w =
     (let t = next_timer w;
          w1 = setTimer NoResponseTimer w in
      case this_ws w1 of
        None \<Rightarrow> (Throw TypeError, w1)
      | Some k \<Rightarrow>
          (let w2 = upd_socket k (lib_call WsPing) w1 in
           if readyState (sockets w1 ! k) = 1
           then (Return JUndefined, upd_socket k (addListener (EvPong, False, PongReceived t)) w2)
           else case ping_sent t (Some not_open) w2 of
                  (Throw e, w3) \<Rightarrow> (Throw e, w3)
                | (Return v, w3) \<Rightarrow>
                    (case this_ws w3 of
                       None \<Rightarrow> (Throw TypeError, w3)
                     | Some j \<Rightarrow>
                         (Return JUndefined,
                          upd_socket j (addListener (EvPong, False, PongReceived t)) w3))))"

subsection \<open>isConnected, send, listen, unlisten, disconnect\<close>

definition isConnected :: "world \<Rightarrow> jsval" where
  "isConnected w =
     (case this_ws w of None \<Rightarrow> JNull | Some k \<Rightarrow> JBool (readyState (sockets w ! k) < 2))"

text \<open>\<^verbatim>\<open>send\<close> (106-111). \<^verbatim>\<open>isConnected()\<close> lets a socket that is still CONNECTING
  through; \<^verbatim>\<open>this.ws.send\<close> raises on it, and so does \<^verbatim>\<open>send\<close>.\<close>

definition send :: "jsval \<Rightarrow> world \<Rightarrow> jsval result \<times> world" where
  "send packet w =
     (if \<not> truthy (isConnected w) then (Return (JBool False), w)
      else case get_prop packet ''channel'' of
        Throw e \<Rightarrow> (Throw e, w)
      | Return c \<Rightarrow>
          if \<not> truthy c then (Return (JBool False), w)
          else case get_prop packet ''payload'' of
            Throw e \<Rightarrow> (Throw e, w)
          | Return p \<Rightarrow>
              if \<not> truthy p then (Return (JBool False), w)
              else case this_ws w of
                None \<Rightarrow> (Throw TypeError, w)
              | Some k \<Rightarrow>
                  (if readyState (sockets w ! k) = 1 then Return (JBool True)
                   else Throw not_open,
                   upd_socket k (lib_call (WsSend packet)) w))"

text \<open>\<^verbatim>\<open>listen\<close> (118-121) returns what \<^verbatim>\<open>push\<close> returns, the new length.\<close>

definition listen :: "string \<Rightarrow> callback \<Rightarrow> world \<Rightarrow> jsval result \<times> world" where
  "listen ev cb w =
     (let fs = (case listeners w ev of None \<Rightarrow> [] | Some fs \<Rightarrow> fs) in
      (Return (JNum (of_nat (length fs + 1))), w\<lparr>listeners := (listeners w)(ev \<mapsto> fs @ [cb])\<rparr>))"

fun falsy_handle :: "handle \<Rightarrow> bool" where
  "falsy_handle NoHandle = True"
| "falsy_handle (Fn f) = False"
| "falsy_handle (Handle v) = (\<not> truthy v)"

fun same_function :: "callback \<Rightarrow> handle \<Rightarrow> bool" where
  "same_function f (Fn g) = (cb_id f = cb_id g)"
| "same_function f h = False"

text \<open>The index the \<^verbatim>\<open>forEach\<close> of \<^verbatim>\<open>unlisten\<close> leaves in \<^verbatim>\<open>indexToRemove\<close>.\<close>

definition indexToRemove :: "callback list \<Rightarrow> handle \<Rightarrow> int" where
  "indexToRemove fs h =
     foldl (\<lambda>acc (i, f). if same_function f h then int i else acc) (- 1)
       (zip [0..<length fs] fs)"

text \<open>
  \<^verbatim>\<open>unlisten\<close> (128-139). Its last line calls \<^verbatim>\<open>splice\<close> on \<^verbatim>\<open>this.listeners\<close>, the
  registry object, which has no such method: the call raises a TypeError, whatever
  \<^verbatim>\<open>indexToRemove\<close> is.
\<close>

definition unlisten :: "string \<Rightarrow> handle \<Rightarrow> world \<Rightarrow> jsval result \<times> world" where
  "unlisten ev h w =
     (case listeners w ev of
        None \<Rightarrow> (Return JNull, w)
      | Some fs \<Rightarrow>
          if falsy_handle h then (Return (JArr []), w\<lparr>listeners := (listeners w)(ev \<mapsto> [])\<rparr>)
          else (let i = indexToRemove fs h in (Throw TypeError, w)))"

text \<open>\<^verbatim>\<open>disconnect\<close> (144-147).\<close>

definition disconnect :: "world \<Rightarrow> jsval result \<times> world" where
  "disconnect w =
     (let w1 = debug DDisconnect w in
      case this_ws w1 of
        None \<Rightarrow> (Throw TypeError, w1)
      | Some k \<Rightarrow> (Return JUndefined, upd_socket k (lib_call WsClose) w1))"

subsection \<open>onMessage\<close>

text \<open>
  The \<^verbatim>\<open>forEach\<close> of \<^verbatim>\<open>onMessage\<close>: the callbacks are called in order, and a throw of
  one leaves the loop.
\<close>

fun forEach_call :: "callback list \<Rightarrow> jsval \<Rightarrow> world \<Rightarrow> jsval result \<times> world" where
  "forEach_call [] p w = (Return JUndefined, w)"
| "forEach_call (f # fs) p w =
     (let w1 = w\<lparr>invoked := invoked w @ [(cb_id f, p)]\<rparr> in
      if raises f p then (Throw (Thrown (cb_id f)), w1) else forEach_call fs p w1)"

text \<open>The key of the registry that a channel value selects: the string itself, and for
  any other value what the runtime's conversion \<open>toKey\<close> makes of it.\<close>

definition channel_key :: "(jsval \<Rightarrow> string) \<Rightarrow> jsval \<Rightarrow> string" where
  "channel_key toKey c = (case c of JStr s \<Rightarrow> s | _ \<Rightarrow> toKey c)"

text \<open>\<^verbatim>\<open>onMessage\<close> (68-78), on the outcome of \<^verbatim>\<open>JSON.parse(rawData)\<close>.\<close>

definition onMessage :: "(jsval \<Rightarrow> string) \<Rightarrow> jsval option \<Rightarrow> world \<Rightarrow> jsval result \<times> world" where
  "onMessage toKey parsed w =
     (case parsed of
        None \<Rightarrow> (Return JUndefined, debug DNonJson w)
      | Some data \<Rightarrow>
          (case get_prop data ''channel'' of
             Throw e \<Rightarrow> (Throw e, w)
           | Return c \<Rightarrow>
               if \<not> truthy c then (Return JUndefined, debug DBadMessage w)
               else case get_prop data ''payload'' of
                 Throw e \<Rightarrow> (Throw e, w)
               | Return p \<Rightarrow>
                   if \<not> truthy p then (Return JUndefined, debug DBadMessage w)
                   else case listeners w (channel_key toKey c) of
                     None \<Rightarrow> (Return (JBool False), w)
                   | Some fs \<Rightarrow> forEach_call fs p w))"

subsection \<open>Events\<close>

text \<open>What each registered closure does when the emitter calls it.\<close>

fun run_handler :: "(jsval \<Rightarrow> string) \<Rightarrow> handler \<Rightarrow> ws_event \<Rightarrow> world \<Rightarrow> jsval result \<times> world" where
  "run_handler toKey (OnError n cb) ev w =
     (case this_ws w of
        None \<Rightarrow> (Throw TypeError, w)
      | Some k \<Rightarrow>
          (Return JUndefined,
           invoke_cb cb (case ev of Failure e \<Rightarrow> Some e | _ \<Rightarrow> None)
             (upd_socket k removeAllListeners w)))"
| "run_handler toKey (OnOpen n cb) ev w =
     (let w1 = debug DConnected w in
      case this_ws w1 of
        None \<Rightarrow> (Throw TypeError, w1)
      | Some k \<Rightarrow>
          (let w2 = upd_socket k
                      (\<lambda>s. addListener (EvError, False, LogError)
                             (addListener (EvClose, False, OnClose)
                               (removeListener (EvError, True, OnError n cb) s))) w1;
               w3 = (setTimer PingTimer w2)\<lparr>pingInterval := Some (next_timer w2)\<rparr>
           in (Return JUndefined, invoke_cb cb None w3)))"
| "run_handler toKey OnClose ev w = onClose w"
| "run_handler toKey LogError ev w = (Return JUndefined, debug DSocketError w)"
| "run_handler toKey PingReply ev w =
     (let w1 = debug DPingReceived w in
      case this_ws w1 of
        None \<Rightarrow> (Throw TypeError, w1)
      | Some k \<Rightarrow> (Return JUndefined, upd_socket k (lib_call WsPong) w1))"
| "run_handler toKey OnMessage ev w =
     onMessage toKey (case ev of Message p \<Rightarrow> p | _ \<Rightarrow> None) w"
| "run_handler toKey (PongReceived t) ev w =
     (Return JUndefined, debug DPongReceived (clearTimeout t w))"

text \<open>
  The emitter of socket \<open>k\<close> calls the listeners it had for the event when \<^verbatim>\<open>emit\<close>
  started, in the order they were added; a \<^verbatim>\<open>once\<close> listener is taken off the socket
  before it is called; a throw of a listener ends the emit.
\<close>

fun run_handlers ::
  "(jsval \<Rightarrow> string) \<Rightarrow> nat \<Rightarrow> (evname \<times> bool \<times> handler) list \<Rightarrow> ws_event \<Rightarrow> world
     \<Rightarrow> jsval result \<times> world" where
  "run_handlers toKey k [] ev w = (Return JUndefined, w)"
| "run_handlers toKey k ((n, once, h) # hs) ev w =
     (let w1 = (if once then upd_socket k (removeListener (n, once, h)) w else w) in
      case run_handler toKey h ev w1 of
        (Throw e, w2) \<Rightarrow> (Throw e, w2)
      | (Return v, w2) \<Rightarrow> run_handlers toKey k hs ev w2)"

definition snapshot :: "nat \<Rightarrow> ws_event \<Rightarrow> world \<Rightarrow> (evname \<times> bool \<times> handler) list" where
  "snapshot k ev w = filter (\<lambda>(n, once, h). n = event_name ev) (handlers (sockets w ! k))"

text \<open>An \<^verbatim>\<open>'error'\<close> event that finds no listener is thrown by the emitter.\<close>

definition emit :: "(jsval \<Rightarrow> string) \<Rightarrow> nat \<Rightarrow> ws_event \<Rightarrow> world \<Rightarrow> jsval result \<times> world" where
  "emit toKey k ev w =
     (case (ev, snapshot k ev w) of
        (Failure e, []) \<Rightarrow> (Throw e, w)
      | (_, hs) \<Rightarrow> run_handlers toKey k hs ev w)"

text \<open>Socket \<open>k\<close> reports an event: the library sets the state (1 on open, 3 on close)
  and emits. Nothing happens for a socket that was never made.\<close>

definition deliver :: "(jsval \<Rightarrow> string) \<Rightarrow> nat \<Rightarrow> ws_event \<Rightarrow> world \<Rightarrow> jsval result \<times> world" where
  "deliver toKey k ev w =
     (if k < length (sockets w) then
        emit toKey k ev
          (upd_socket k
             (\<lambda>s. s\<lparr>readyState := (case ev of Open \<Rightarrow> 1 | Closed \<Rightarrow> 3 | _ \<Rightarrow> readyState s)\<rparr>) w)
      else (Return JUndefined, w))"

text \<open>
  A pending timer fires. A timeout leaves the queue when it fires, an interval stays.
  The status interval belongs to the agent: its tick is \<^verbatim>\<open>sendStatus\<close>, below.
\<close>

definition fire :: "nat \<Rightarrow> world \<Rightarrow> jsval result \<times> world" where
  "fire h w =
     (case map_of (timers w) h of
        None \<Rightarrow> (Return JUndefined, w)
      | Some PingTimer \<Rightarrow> ping w
      | Some NoResponseTimer \<Rightarrow> noResponse h (clearTimeout h w)
      | Some StatusTimer \<Rightarrow> (Return JUndefined, w))"

text \<open>The calls of the embedding program and the events of the runtime, one at a time
  (the event loop runs each to its end before the next).\<close>

datatype event =
    Connect
  | Disconnect
  | Send jsval
  | Listen string callback
  | Unlisten string handle
  | Emit nat ws_event
  | Fire nat
  | PingSent nat "js_error option"

fun step :: "(jsval \<Rightarrow> string) \<Rightarrow> event \<Rightarrow> world \<Rightarrow> jsval result \<times> world" where
  "step toKey Connect w = (Return JUndefined, connect CallerCb w)"
| "step toKey Disconnect w = disconnect w"
| "step toKey (Send p) w = send p w"
| "step toKey (Listen c f) w = listen c f w"
| "step toKey (Unlisten c h) w = unlisten c h w"
| "step toKey (Emit k ev) w = deliver toKey k ev w"
| "step toKey (Fire h) w = fire h w"
| "step toKey (PingSent t err) w = ping_sent t err w"

text \<open>A run: the state after a sequence of events. An exception that leaves a step goes
  to whoever made the call; the state keeps what the step did before it.\<close>

fun run :: "(jsval \<Rightarrow> string) \<Rightarrow> event list \<Rightarrow> world \<Rightarrow> world" where
  "run toKey [] w = w"
| "run toKey (e # es) w = run toKey es (snd (step toKey e w))"

text \<open>Every socket made so far was opened with \<open>e\<close> and \<open>h\<close>, and these are still the
  endpoint and the headers the transport holds.\<close>

definition bound_to :: "jsval \<Rightarrow> headers \<Rightarrow> world \<Rightarrow> bool" where
  "bound_to e h w =
     (endpoint w = e \<and> headers w = h \<and> list_all (\<lambda>s. url s = e \<and> hdrs s = h) (sockets w))"

text \<open>The events the runtime brings, as against the calls the embedding program makes.\<close>

fun autonomous :: "event \<Rightarrow> bool" where
  "autonomous (Emit k ev) = True"
| "autonomous (Fire h) = True"
| "autonomous (PingSent t err) = True"
| "autonomous ev = False"

section \<open>The agent\<close>

text \<open>
  \<^verbatim>\<open>src/index.js\<close>. The configuration holds the three strings the constructor checks for,
  and the two fields \<^verbatim>\<open>start\<close> stores later (\<^verbatim>\<open>undefined\<close> until then). The agent's
  \<^verbatim>\<open>transport\<close> field is \<open>None\<close> until it is assigned; the transport is held with its
  sockets and the timer queue, where the agent's status interval is queued too.
\<close>

record config =
  publicKey :: string
  secretKey :: string
  appName :: string
  cfg_endpoint :: jsval
  internalIp :: jsval

datatype promise = Pending | Resolved | Rejected js_error

record agent =
  config :: config
  process :: jsval
  transport :: "world option"
  statusInterval :: "nat option"
  started :: promise

text \<open>The constructor (19-33), for a configuration and a process of the right types;
  \<open>proc\<close> is the process descriptor with its \<^verbatim>\<open>unique_id\<close> set.\<close>

definition Agent :: "string \<Rightarrow> string \<Rightarrow> string \<Rightarrow> jsval \<Rightarrow> agent" where
  "Agent pub sec app proc =
     \<lparr>config = \<lparr>publicKey = pub, secretKey = sec, appName = app,
                cfg_endpoint = JUndefined, internalIp = JUndefined\<rparr>,
      process = proc, transport = None, statusInterval = None, started = Pending\<rparr>"

text \<open>
  The callback of \<^verbatim>\<open>checkCredentials\<close> (134-140) on the reply \<open>(err, data)\<close> of the HTTP
  helper: \<open>Return (Inl e)\<close> is \<^verbatim>\<open>cb(e)\<close>, \<open>Return (Inr endpoints)\<close> is
  \<^verbatim>\<open>cb(null, endpoints)\<close>, and \<open>Throw\<close> is an exception raised in the callback itself.
\<close>

definition checkCredentials :: "js_error option \<times> jsval \<Rightarrow> (js_error + jsval) result" where
  "checkCredentials reply =
     (case fst reply of
        Some e \<Rightarrow> Return (Inl e)
      | None \<Rightarrow>
          (case get_prop (snd reply) ''disabled'' of
             Throw e \<Rightarrow> Throw e
           | Return d \<Rightarrow>
               if d = JBool True \<or> get_prop (snd reply) ''pending'' = Return (JBool True)
               then Return (Inl (JsError ''Interactor disabled.''))
               else if get_prop (snd reply) ''active'' = Return (JBool False)
               then Return (Inl (JsError ''Interactor not active.''))
               else (case get_prop (snd reply) ''endpoints'' of
                       Throw e \<Rightarrow> Throw e
                     | Return ep \<Rightarrow>
                         if \<not> truthy ep then Return (Inl (EndpointsNotPresent (snd reply)))
                         else Return (Inr ep))))"

text \<open>Settling the promise of \<^verbatim>\<open>start\<close>: only the first \<^verbatim>\<open>resolve\<close> or \<^verbatim>\<open>reject\<close>
  counts.\<close>

definition settle :: "promise \<Rightarrow> agent \<Rightarrow> agent" where
  "settle p a = (if started a = Pending then a\<lparr>started := p\<rparr> else a)"

text \<open>
  \<^verbatim>\<open>start\<close> (38-66), from the moment the HTTP helper replies: reject on a credential
  error, else construct the transport with the verified endpoint and the five headers and
  call \<^verbatim>\<open>connect\<close>. The two version strings come from \<^verbatim>\<open>constants.js\<close>.
\<close>

definition start :: "string \<Rightarrow> string \<Rightarrow> js_error option \<times> jsval \<Rightarrow> agent \<Rightarrow> jsval result \<times> agent" where
  "start pm2_version protocol_version reply a =
     (case checkCredentials reply of
        Throw e \<Rightarrow> (Throw e, a)
      | Return (Inl err) \<Rightarrow> (Return JUndefined, settle (Rejected err) a)
      | Return (Inr endpoints) \<Rightarrow>
          (case get_prop endpoints ''ws'' of
             Throw e \<Rightarrow> (Throw e, a)
           | Return u \<Rightarrow>
               (Return JUndefined,
                a\<lparr>transport := Some (connect StartCb
                     (WebsocketTransport u
                        [(''X-KM-PUBLIC'', publicKey (config a)),
                         (''X-KM-SECRET'', secretKey (config a)),
                         (''X-KM-SERVER'', appName (config a)),
                         (''X-PM2-VERSION'', pm2_version),
                         (''X-PROTOCOL-VERSION'', protocol_version)]))\<rparr>)))"

text \<open>
  The callback \<^verbatim>\<open>start\<close> gives to \<^verbatim>\<open>connect\<close> (52-63). \<open>ip\<close> is what
  \<^verbatim>\<open>meta.computeInternalIp()\<close> returns; \<^verbatim>\<open>endpoints.ws\<close> is the endpoint the transport
  was constructed with.
\<close>

definition start_connected :: "jsval \<Rightarrow> js_error option \<Rightarrow> agent \<Rightarrow> agent" where
  "start_connected ip err a =
     (case err of
        Some e \<Rightarrow> settle (Rejected e) a
      | None \<Rightarrow>
          (case transport a of
             None \<Rightarrow> a
           | Some w \<Rightarrow>
               settle Resolved
                 (a\<lparr>config := (config a)\<lparr>cfg_endpoint := endpoint w, internalIp := ip\<rparr>,
                    statusInterval := Some (next_timer w),
                    transport := Some (setTimer StatusTimer w)\<rparr>)))"

text \<open>
  \<^verbatim>\<open>sendStatus\<close> (165-178). \<open>proc\<close> is what \<^verbatim>\<open>generateProcess(this.process)\<close> returns and
  \<open>server\<close> what \<^verbatim>\<open>meta.getServerMeta()\<close> returns.
\<close>

definition status_packet :: "jsval \<Rightarrow> jsval \<Rightarrow> agent \<Rightarrow> jsval" where
  "status_packet proc server a =
     JObj [(''channel'', JStr ''status''),
           (''payload'',
            JObj [(''data'', JObj [(''process'', JArr [proc]), (''server'', server)]),
                  (''server_name'', JStr (appName (config a))),
                  (''internal_ip'', internalIp (config a)),
                  (''rev_con'', JBool True)])]"

definition sendStatus :: "jsval \<Rightarrow> jsval \<Rightarrow> agent \<Rightarrow> jsval result \<times> agent" where
  "sendStatus proc server a =
     (case transport a of
        None \<Rightarrow> (Throw TypeError, a)
      | Some w \<Rightarrow>
          (case send (status_packet proc server a) w of
             (r, w1) \<Rightarrow> (r, a\<lparr>transport := Some w1\<rparr>)))"

text \<open>
  The runtime parameters of the agent's glue: the key conversion, the internal IP, and
  the process and server descriptions of a status push.
\<close>

record env =
  env_key :: "jsval \<Rightarrow> string"
  env_ip :: jsval
  env_proc :: jsval
  env_server :: jsval

text \<open>
  An event, seen from the agent. With no transport there is no socket and no timer, and
  a call on \<^verbatim>\<open>this.transport\<close> raises. A tick of the status interval is
  \<^verbatim>\<open>sendStatus\<close>; any other event is the transport's, and each call it makes of the
  callback \<^verbatim>\<open>start\<close> gave to \<^verbatim>\<open>connect\<close> runs that closure.
\<close>

definition agent_step :: "env \<Rightarrow> event \<Rightarrow> agent \<Rightarrow> jsval result \<times> agent" where
  "agent_step E ev a =
     (case transport a of
        None \<Rightarrow>
          (case ev of
             Emit k e \<Rightarrow> (Return JUndefined, a)
           | Fire h \<Rightarrow> (Return JUndefined, a)
           | PingSent t err \<Rightarrow> (Return JUndefined, a)
           | _ \<Rightarrow> (Throw TypeError, a))
      | Some w \<Rightarrow>
          if (case ev of Fire h \<Rightarrow> map_of (timers w) h = Some StatusTimer | _ \<Rightarrow> False)
          then sendStatus (env_proc E) (env_server E) a
          else (case step (env_key E) ev w of
                  (r, w1) \<Rightarrow>
                    (r, foldl (\<lambda>a err. start_connected (env_ip E) err a)
                          (a\<lparr>transport := Some w1\<rparr>)
                          (map snd (filter (\<lambda>(cb, err). cb = StartCb)
                             (drop (length (completions w)) (completions w1)))))))"

fun agent_run :: "env \<Rightarrow> event list \<Rightarrow> agent \<Rightarrow> agent" where
  "agent_run E [] a = a"
| "agent_run E (e # es) a = agent_run E es (snd (agent_step E e a))"

section \<open>Properties\<close>

lemmas world_defs = WebsocketTransport_def debug_def connect_def new_WebSocket_def deliver_def
  emit_def snapshot_def upd_socket_def this_ws_def disconnect_def lib_call_def onClose_def
  removeAllListeners_def removeListener_def addListener_def setTimer_def clearTimeout_def
  fire_def ping_def noResponse_def ping_sent_def not_open_def Let_def

subsection \<open>disconnect\<close>

text \<open>
  C1, as the code has it. On a transport whose socket \<open>k\<close> carries the close listener that
  a successful \<^verbatim>\<open>connect\<close> registered, \<^verbatim>\<open>disconnect()\<close> calls \<^verbatim>\<open>close()\<close> on that socket
  and does nothing else: it makes no socket and leaves the listeners where they are. When
  the socket then reports its close, \<^verbatim>\<open>onClose\<close> runs as for any other close and makes one
  reconnect attempt, a new socket for the stored endpoint and headers.
\<close>

theorem disconnect_then_close_reconnects:
  assumes "this_ws w = Some k"
      and "snapshot k Closed w = [(EvClose, False, OnClose)]"
  shows "disconnect w = (Return JUndefined, upd_socket k (lib_call WsClose) (debug DDisconnect w)) \<and>
         length (sockets (snd (disconnect w))) = length (sockets w) \<and>
         handlers (sockets (snd (disconnect w)) ! k) = handlers (sockets w ! k) \<and>
         (\<exists>w'. deliver K k Closed (snd (disconnect w)) = (Return JUndefined, w') \<and>
               length (sockets w') = Suc (length (sockets w)) \<and>
               ws w' = Some (length (sockets w)) \<and>
               url (sockets w' ! length (sockets w)) = endpoint w \<and>
               hdrs (sockets w' ! length (sockets w)) = headers w)"
proof -
  from assms(1) have k: "k < length (sockets w)" and wsk: "ws w = Some k"
    by (auto simp: this_ws_def split: option.splits if_splits)
  have d: "disconnect w = (Return JUndefined, upd_socket k (lib_call WsClose) (debug DDisconnect w))"
    using assms(1)
    by (auto simp: disconnect_def Let_def this_ws_def debug_def split: option.splits if_splits)
  let ?w1 = "upd_socket k (lib_call WsClose) (debug DDisconnect w)"
  let ?w2 = "upd_socket k (\<lambda>s. s\<lparr>readyState := 3\<rparr>) ?w1"
  have len: "length (sockets ?w1) = length (sockets w)"
    by (simp add: upd_socket_def debug_def)
  have h1: "handlers (sockets ?w1 ! k) = handlers (sockets w ! k)"
    using k by (simp add: upd_socket_def debug_def lib_call_def)
  have snap: "snapshot k Closed ?w2 = [(EvClose, False, OnClose)]"
    using assms(2) k by (simp add: snapshot_def upd_socket_def debug_def lib_call_def)
  have cur: "this_ws (debug DClosed ?w2) = Some k"
    using k wsk by (simp add: this_ws_def upd_socket_def debug_def)
  have del: "deliver K k Closed ?w1 = onClose ?w2"
    using k snap
    by (simp add: deliver_def emit_def len) (simp add: onClose_def Let_def split: option.splits)
  have oc: "onClose ?w2 = (Return JUndefined, connect ReconnectCb
               (upd_socket k (\<lambda>s. removeAllListeners (lib_call WsTerminate s)) (debug DClosed ?w2)))"
    using cur by (simp add: onClose_def Let_def)
  let ?w3 = "connect ReconnectCb
               (upd_socket k (\<lambda>s. removeAllListeners (lib_call WsTerminate s)) (debug DClosed ?w2))"
  have "length (sockets ?w3) = Suc (length (sockets w))"
    by (simp add: connect_def Let_def upd_socket_def debug_def)
  moreover have "ws ?w3 = Some (length (sockets w))"
    by (simp add: connect_def Let_def upd_socket_def debug_def)
  moreover have "url (sockets ?w3 ! length (sockets w)) = endpoint w"
    by (simp add: connect_def Let_def upd_socket_def debug_def new_WebSocket_def nth_append)
  moreover have "hdrs (sockets ?w3 ! length (sockets w)) = headers w"
    by (simp add: connect_def Let_def upd_socket_def debug_def new_WebSocket_def nth_append)
  ultimately show ?thesis using d len h1 del oc by simp
qed

theorem disconnect_then_close_reconnects_witness:
  "length (sockets (snd (disconnect (run (\<lambda>v. []) [Connect, Emit 0 Open]
       (WebsocketTransport (JStr ''wss://example/x'') []))))) = 1 \<and>
   (\<exists>w'. deliver (\<lambda>v. []) 0 Closed (snd (disconnect (run (\<lambda>v. []) [Connect, Emit 0 Open]
       (WebsocketTransport (JStr ''wss://example/x'') [])))) = (Return JUndefined, w') \<and>
     length (sockets w') = 2 \<and> ws w' = Some 1 \<and> url (sockets w' ! 1) = JStr ''wss://example/x'')"
  using disconnect_then_close_reconnects [of "run (\<lambda>v. []) [Connect, Emit 0 Open]
       (WebsocketTransport (JStr ''wss://example/x'') [])" 0 "\<lambda>v. []"]
  by (simp add: world_defs)

text \<open>
  C1 as stated fails: connect, the socket opens, \<^verbatim>\<open>disconnect()\<close> (one socket, \<^verbatim>\<open>close()\<close>
  called on it), the socket reports its close: a second socket has been made and is
  \<^verbatim>\<open>this.ws\<close>, a reconnect attempt after an intentional disconnect.
\<close>

theorem disconnect_reconnect_counterexample:
  "length (sockets (run (\<lambda>v. []) [Connect, Emit 0 Open, Disconnect]
       (WebsocketTransport (JStr ''wss://example/x'') []))) = 1 \<and>
   calls (sockets (run (\<lambda>v. []) [Connect, Emit 0 Open, Disconnect]
       (WebsocketTransport (JStr ''wss://example/x'') [])) ! 0) = [WsClose] \<and>
   length (sockets (run (\<lambda>v. []) [Connect, Emit 0 Open, Disconnect, Emit 0 Closed]
       (WebsocketTransport (JStr ''wss://example/x'') []))) = 2 \<and>
   ws (run (\<lambda>v. []) [Connect, Emit 0 Open, Disconnect, Emit 0 Closed]
       (WebsocketTransport (JStr ''wss://example/x'') [])) = Some 1"
  by (simp add: world_defs)

text \<open>
  C2, as the code has it. \<^verbatim>\<open>disconnect()\<close> cancels no timer: the timer queue and the
  \<^verbatim>\<open>pingInterval\<close> field are what they were, and on an agent's transport the queue and
  the agent's \<^verbatim>\<open>statusInterval\<close> are what they were; so the ping interval, a pending
  liveness timeout and the status interval all stay armed.
\<close>

theorem disconnect_keeps_timers:
  "timers (snd (disconnect w)) = timers w \<and>
   pingInterval (snd (disconnect w)) = pingInterval w \<and>
   statusInterval (snd (agent_step E Disconnect a)) = statusInterval a \<and>
   map_option timers (transport (snd (agent_step E Disconnect a))) = map_option timers (transport a)"
proof -
  have t: "timers (snd (disconnect w)) = timers w" for w
    by (simp add: disconnect_def Let_def upd_socket_def debug_def split: option.splits)
  have p: "pingInterval (snd (disconnect w)) = pingInterval w"
    by (simp add: disconnect_def Let_def upd_socket_def debug_def split: option.splits)
  have c: "completions (snd (disconnect w)) = completions w" for w
    by (simp add: disconnect_def Let_def upd_socket_def debug_def split: option.splits)
  have s: "snd (agent_step E Disconnect a) =
             (case transport a of None \<Rightarrow> a
              | Some w \<Rightarrow> a\<lparr>transport := Some (snd (disconnect w))\<rparr>)"
  proof (cases "transport a")
    case None
    then show ?thesis by (simp add: agent_step_def)
  next
    case (Some w0)
    obtain r w1 where d: "disconnect w0 = (r, w1)" by (cases "disconnect w0")
    have "completions w1 = completions w0" using c [of w0] d by simp
    with Some d show ?thesis by (simp add: agent_step_def)
  qed
  show ?thesis using t p by (simp add: s split: option.splits)
qed

text \<open>
  C2 as stated fails: after connect, open and \<^verbatim>\<open>disconnect()\<close> the ping interval (handle
  0) is still queued. When it fires, \<^verbatim>\<open>ping()\<close> runs: a probe is tried on the closing
  socket (\<^verbatim>\<open>ping\<close> after the \<^verbatim>\<open>close\<close>), the library reports at once that the socket is
  not open, and \<^verbatim>\<open>noResponse\<close> terminates the socket and makes a second one. The ping
  interval is queued still.
\<close>

theorem timers_after_disconnect_counterexample:
  "timers (run (\<lambda>v. []) [Connect, Emit 0 Open, Disconnect]
       (WebsocketTransport (JStr ''wss://example/x'') [])) = [(0, PingTimer)] \<and>
   calls (sockets (run (\<lambda>v. []) [Connect, Emit 0 Open, Disconnect, Fire 0]
       (WebsocketTransport (JStr ''wss://example/x'') [])) ! 0) = [WsClose, WsPing, WsTerminate] \<and>
   length (sockets (run (\<lambda>v. []) [Connect, Emit 0 Open, Disconnect, Fire 0]
       (WebsocketTransport (JStr ''wss://example/x'') []))) = 2 \<and>
   timers (run (\<lambda>v. []) [Connect, Emit 0 Open, Disconnect, Fire 0]
       (WebsocketTransport (JStr ''wss://example/x'') [])) = [(0, PingTimer)]"
  by (simp add: world_defs)

subsection \<open>The heartbeat\<close>

text \<open>
  C3, evaluated on the code. Connect, the socket opens, the ping interval fires (probe
  sent, timeout 1 armed), the timeout fires with no pong: \<^verbatim>\<open>noResponse\<close> terminates socket
  0 and makes socket 1, one reconnect attempt. It leaves the close listener on socket 0, so
  when the terminated socket reports its close, \<^verbatim>\<open>onClose\<close> runs: it terminates socket 1,
  the connection just made, and makes socket 2, a second reconnect attempt for the one
  liveness failure.
\<close>

theorem liveness_failure_reconnects_twice:
  "length (sockets (run (\<lambda>v. []) [Connect, Emit 0 Open, Fire 0]
       (WebsocketTransport (JStr ''wss://example/x'') []))) = 1 \<and>
   length (sockets (run (\<lambda>v. []) [Connect, Emit 0 Open, Fire 0, Fire 1]
       (WebsocketTransport (JStr ''wss://example/x'') []))) = 2 \<and>
   calls (sockets (run (\<lambda>v. []) [Connect, Emit 0 Open, Fire 0, Fire 1]
       (WebsocketTransport (JStr ''wss://example/x'') [])) ! 0) = [WsPing, WsTerminate] \<and>
   length (sockets (run (\<lambda>v. []) [Connect, Emit 0 Open, Fire 0, Fire 1, Emit 0 Closed]
       (WebsocketTransport (JStr ''wss://example/x'') []))) = 3 \<and>
   calls (sockets (run (\<lambda>v. []) [Connect, Emit 0 Open, Fire 0, Fire 1, Emit 0 Closed]
       (WebsocketTransport (JStr ''wss://example/x'') [])) ! 1) = [WsTerminate]"
  by (simp add: world_defs)

subsection \<open>send\<close>




text \<open>
  C10. A payload that is there but is 0, false, the empty string or null: \<^verbatim>\<open>send\<close>
  returns false and changes nothing (so nothing is transmitted), and an inbound frame
  with such a payload is dropped with the bad-message diagnostic, no subscriber called.
\<close>

theorem falsy_payload_is_dropped:
  assumes "get_prop packet ''payload'' = Return v"
      and "v \<in> {JNum 0, JBool False, JStr [], JNull}"
  shows "send packet w = (Return (JBool False), w) \<and>
         onMessage K (Some packet) w = (Return JUndefined, debug DBadMessage w) \<and>
         invoked (snd (onMessage K (Some packet) w)) = invoked w"
proof -
  from assms(2) have f: "\<not> truthy v" by auto
  from assms(1) obtain c where c: "get_prop packet ''channel'' = Return c"
    by (cases packet) auto
  have "send packet w = (Return (JBool False), w)"
    using f c assms(1) by (simp add: send_def)
  moreover have "onMessage K (Some packet) w = (Return JUndefined, debug DBadMessage w)"
    using f c assms(1) by (simp add: onMessage_def)
  ultimately show ?thesis by (simp add: debug_def)
qed

theorem falsy_payload_is_dropped_witness:
  "send (JObj [(''channel'', JStr ''status''), (''payload'', JNum 0)])
        (run (\<lambda>v. []) [Connect, Emit 0 Open] (WebsocketTransport (JStr ''wss://example/x'') []))
     = (Return (JBool False),
        run (\<lambda>v. []) [Connect, Emit 0 Open] (WebsocketTransport (JStr ''wss://example/x'') [])) \<and>
   onMessage (\<lambda>v. []) (Some (JObj [(''channel'', JStr ''status''), (''payload'', JNum 0)]))
        (WebsocketTransport (JStr ''wss://example/x'') [])
     = (Return JUndefined, debug DBadMessage (WebsocketTransport (JStr ''wss://example/x'') []))"
  using falsy_payload_is_dropped
          [of "JObj [(''channel'', JStr ''status''), (''payload'', JNum 0)]" "JNum 0"]
  by simp

subsection \<open>The subscriber registry\<close>

lemma unlisten_with_handle:
  "listeners w ev = Some fs \<Longrightarrow> \<not> falsy_handle h \<Longrightarrow> unlisten ev h w = (Throw TypeError, w)"
  by (simp add: unlisten_def)

lemma unlisten_all:
  "listeners w ev = Some fs \<Longrightarrow>
     unlisten ev NoHandle w = (Return (JArr []), w\<lparr>listeners := (listeners w)(ev \<mapsto> [])\<rparr>)"
  by (simp add: unlisten_def)

lemma unlisten_other_channels:
  "c \<noteq> ev \<Longrightarrow> listeners (snd (unlisten ev h w)) c = listeners w c"
  by (simp add: unlisten_def split: option.splits)

text \<open>
  C5, evaluated on the code. One callback is subscribed on channel \<^verbatim>\<open>a\<close> (\<^verbatim>\<open>listen\<close>
  returns 1). \<^verbatim>\<open>unlisten\<close> with that callback raises a TypeError and the callback is
  still subscribed; \<^verbatim>\<open>unlisten\<close> with the number \<^verbatim>\<open>listen\<close> returned raises it too.
\<close>

theorem unlisten_handle_raises:
  "fst (listen ''a'' (Callback 1 (\<lambda>p. False)) (WebsocketTransport (JStr ''wss://example/x'') []))
     = Return (JNum 1) \<and>
   fst (unlisten ''a'' (Fn (Callback 1 (\<lambda>p. False)))
         (snd (listen ''a'' (Callback 1 (\<lambda>p. False))
                (WebsocketTransport (JStr ''wss://example/x'') []))))
     = Throw TypeError \<and>
   map_option (map cb_id) (listeners (snd (unlisten ''a'' (Fn (Callback 1 (\<lambda>p. False)))
         (snd (listen ''a'' (Callback 1 (\<lambda>p. False))
                (WebsocketTransport (JStr ''wss://example/x'') [])))))
      ''a'') = Some [1] \<and>
   fst (unlisten ''a'' (Handle (JNum 1))
         (snd (listen ''a'' (Callback 1 (\<lambda>p. False))
                (WebsocketTransport (JStr ''wss://example/x'') []))))
     = Throw TypeError"
  by (simp add: listen_def unlisten_def WebsocketTransport_def debug_def)

subsection \<open>Inbound frames\<close>

lemma forEach_call_eq:
  "forEach_call fs p w =
     ((case dropWhile (\<lambda>f. \<not> raises f p) fs of [] \<Rightarrow> Return JUndefined
        | f # gs \<Rightarrow> Throw (Thrown (cb_id f))),
      w\<lparr>invoked := invoked w @ map (\<lambda>f. (cb_id f, p))
            (takeWhile (\<lambda>f. \<not> raises f p) fs @ take 1 (dropWhile (\<lambda>f. \<not> raises f p) fs))\<rparr>)"
  by (induction fs arbitrary: w) (auto simp: Let_def)

text \<open>
  C4, as the code has it. A frame with a truthy channel and payload whose channel has the
  subscribers \<open>fs\<close>: they are called in insertion order with the payload, up to and
  including the first one that throws; its exception leaves \<^verbatim>\<open>onMessage\<close> and the
  subscribers after it are not called. If none throws, all are called. The registry is
  unchanged either way.
\<close>

theorem dispatch_stops_at_first_throw:
  assumes "get_prop data ''channel'' = Return c" and "truthy c"
      and "get_prop data ''payload'' = Return p" and "truthy p"
      and "listeners w (channel_key K c) = Some fs"
  shows "onMessage K (Some data) w =
           ((case dropWhile (\<lambda>f. \<not> raises f p) fs of
               [] \<Rightarrow> Return JUndefined
             | f # gs \<Rightarrow> Throw (Thrown (cb_id f))),
            w\<lparr>invoked := invoked w @ map (\<lambda>f. (cb_id f, p))
                 (takeWhile (\<lambda>f. \<not> raises f p) fs @
                  take 1 (dropWhile (\<lambda>f. \<not> raises f p) fs))\<rparr>) \<and>
         listeners (snd (onMessage K (Some data) w)) = listeners w"
  using assms by (simp add: onMessage_def forEach_call_eq)

theorem dispatch_stops_at_first_throw_witness:
  "onMessage (\<lambda>v. []) (Some (JObj [(''channel'', JStr ''a''), (''payload'', JNum 1)]))
      (snd (listen ''a'' (Callback 2 (\<lambda>p. False))
        (snd (listen ''a'' (Callback 1 (\<lambda>p. True))
               (WebsocketTransport (JStr ''wss://example/x'') [])))))
    = (Throw (Thrown 1),
       (snd (listen ''a'' (Callback 2 (\<lambda>p. False))
        (snd (listen ''a'' (Callback 1 (\<lambda>p. True))
               (WebsocketTransport (JStr ''wss://example/x'') [])))))
       \<lparr>invoked := [(1, JNum 1)]\<rparr>)"
  using dispatch_stops_at_first_throw [of "JObj [(''channel'', JStr ''a''), (''payload'', JNum 1)]"
     "JStr ''a''" "JNum 1"
     "snd (listen ''a'' (Callback 2 (\<lambda>p. False))
        (snd (listen ''a'' (Callback 1 (\<lambda>p. True))
               (WebsocketTransport (JStr ''wss://example/x'') []))))"
     "\<lambda>v. []" "[Callback 1 (\<lambda>p. True), Callback 2 (\<lambda>p. False)]"]
  by (simp add: listen_def channel_key_def WebsocketTransport_def debug_def)

text \<open>
  C4 as stated fails: callbacks 1 and 2 are subscribed on channel \<^verbatim>\<open>a\<close>, in that order,
  and callback 1 throws. A frame for \<^verbatim>\<open>a\<close> calls callback 1 only; callback 2 is not run.
\<close>

theorem throwing_callback_counterexample:
  "map_option (map cb_id) (listeners
      (snd (listen ''a'' (Callback 2 (\<lambda>p. False))
        (snd (listen ''a'' (Callback 1 (\<lambda>p. True))
               (WebsocketTransport (JStr ''wss://example/x'') [])))))
      ''a'') = Some [1, 2] \<and>
   fst (onMessage (\<lambda>v. []) (Some (JObj [(''channel'', JStr ''a''), (''payload'', JNum 1)]))
      (snd (listen ''a'' (Callback 2 (\<lambda>p. False))
        (snd (listen ''a'' (Callback 1 (\<lambda>p. True))
               (WebsocketTransport (JStr ''wss://example/x'') []))))))
     = Throw (Thrown 1) \<and>
   invoked (snd (onMessage (\<lambda>v. []) (Some (JObj [(''channel'', JStr ''a''), (''payload'', JNum 1)]))
      (snd (listen ''a'' (Callback 2 (\<lambda>p. False))
        (snd (listen ''a'' (Callback 1 (\<lambda>p. True))
               (WebsocketTransport (JStr ''wss://example/x'') [])))))))
     = [(1, JNum 1)]"
  by (simp add: listen_def onMessage_def channel_key_def WebsocketTransport_def debug_def)

lemma unparsable_frame_discarded:
  "onMessage K None w = (Return JUndefined, debug DNonJson w)"
  by (simp add: onMessage_def)

text \<open>
  C7, evaluated on the code. The frame text \<^verbatim>\<open>null\<close> parses (to \<^verbatim>\<open>null\<close>) and has neither
  field. It is not discarded with a diagnostic: the read of \<^verbatim>\<open>data.channel\<close>, which is
  outside the \<^verbatim>\<open>try\<close>, raises a TypeError that leaves \<^verbatim>\<open>onMessage\<close>, and no diagnostic
  is recorded.
\<close>

theorem null_frame_raises:
  "onMessage K (Some JNull) w = (Throw TypeError, w)"
  by (simp add: onMessage_def)

subsection \<open>Reconnection\<close>

text \<open>Every operation keeps the endpoint, the headers, and what the sockets were opened
  with: a socket is only ever made by \<^verbatim>\<open>connect\<close>, from the two stored fields.\<close>

lemma bound_upd_socket:
  assumes "bound_to e h w" and "\<And>s. url (f s) = url s \<and> hdrs (f s) = hdrs s"
  shows "bound_to e h (upd_socket k f w)"
proof (cases "k < length (sockets w)")
  case True
  with assms show ?thesis
    by (auto simp: bound_to_def upd_socket_def list_all_iff
          dest!: subsetD [OF set_update_subset_insert])
next
  case False
  with assms show ?thesis by (simp add: bound_to_def upd_socket_def list_update_beyond)
qed

lemma emit_cases:
  "emit K k ev w = run_handlers K k (snapshot k ev w) ev w \<or> (\<exists>e. emit K k ev w = (Throw e, w))"
  by (cases ev; cases "snapshot k ev w") (simp_all add: emit_def)

lemma bound_simple [simp]:
  "bound_to e h (debug d w) = bound_to e h w"
  "bound_to e h (setTimer t w) = bound_to e h w"
  "bound_to e h (clearTimeout n w) = bound_to e h w"
  "bound_to e h (invoke_cb cb err w) = bound_to e h w"
  "bound_to e h (w\<lparr>pingInterval := x\<rparr>) = bound_to e h w"
  "bound_to e h (w\<lparr>invoked := y\<rparr>) = bound_to e h w"
  "bound_to e h (w\<lparr>listeners := z\<rparr>) = bound_to e h w"
  by (cases cb; simp add: bound_to_def debug_def setTimer_def clearTimeout_def)+

lemma keeps_url [simp]:
  "url (lib_call c s) = url s" "hdrs (lib_call c s) = hdrs s"
  "url (removeAllListeners s) = url s" "hdrs (removeAllListeners s) = hdrs s"
  "url (removeListener x s) = url s" "hdrs (removeListener x s) = hdrs s"
  "url (addListener x s) = url s" "hdrs (addListener x s) = hdrs s"
  by (simp_all add: lib_call_def removeAllListeners_def removeListener_def addListener_def)

lemma bound_connect: "bound_to e h w \<Longrightarrow> bound_to e h (connect cb w)"
  by (simp add: bound_to_def connect_def debug_def new_WebSocket_def Let_def)

lemma bound_onClose: "bound_to e h w \<Longrightarrow> bound_to e h (snd (onClose w))"
  by (auto simp: onClose_def Let_def split: option.splits intro!: bound_connect bound_upd_socket)

lemma bound_noResponse: "bound_to e h w \<Longrightarrow> bound_to e h (snd (noResponse t w))"
  by (auto simp: noResponse_def Let_def split: option.splits
        intro!: bound_connect bound_upd_socket)

lemma bound_ping: "bound_to e h w \<Longrightarrow> bound_to e h (snd (ping w))"
proof -
  assume b: "bound_to e h w"
  let ?t = "next_timer w"
  let ?w1 = "setTimer NoResponseTimer w"
  show ?thesis
  proof (cases "this_ws ?w1")
    case None
    with b show ?thesis by (simp add: ping_def Let_def)
  next
    case (Some k)
    let ?w2 = "upd_socket k (lib_call WsPing) ?w1"
    have b2: "bound_to e h ?w2" using b by (auto intro!: bound_upd_socket)
    obtain r w3 where n: "noResponse ?t ?w2 = (r, w3)" by (cases "noResponse ?t ?w2")
    have b3: "bound_to e h w3" using bound_noResponse [OF b2, of ?t] n by simp
    show ?thesis
      using Some b2 b3 n
      by (cases r)
         (auto simp: ping_def ping_sent_def Let_def split: option.splits
            intro!: bound_upd_socket)
  qed
qed

lemma bound_onMessage: "bound_to e h w \<Longrightarrow> bound_to e h (snd (onMessage K parsed w))"
  by (auto simp: onMessage_def forEach_call_eq split: option.splits result.splits)

lemma bound_run_handler: "bound_to e h w \<Longrightarrow> bound_to e h (snd (run_handler K hdl ev w))"
  by (cases hdl)
     (auto simp: Let_def bound_onClose bound_onMessage split: option.splits
        intro!: bound_upd_socket)

lemma bound_run_handlers: "bound_to e h w \<Longrightarrow> bound_to e h (snd (run_handlers K k hs ev w))"
proof (induction hs arbitrary: w)
  case Nil
  then show ?case by simp
next
  case (Cons x hs)
  obtain n once hdl where x: "x = (n, once, hdl)" by (cases x)
  let ?w1 = "if once then upd_socket k (removeListener (n, once, hdl)) w else w"
  have b1: "bound_to e h ?w1" using Cons.prems by (auto intro!: bound_upd_socket)
  obtain r w2 where r: "run_handler K hdl ev ?w1 = (r, w2)"
    by (cases "run_handler K hdl ev ?w1")
  have b2: "bound_to e h w2" using bound_run_handler [OF b1, of K hdl ev] r by simp
  show ?case
  proof (cases r)
    case (Return v)
    with x r Cons.IH [OF b2] show ?thesis by (simp add: Let_def)
  next
    case (Throw err)
    with x r b2 show ?thesis by (simp add: Let_def)
  qed
qed

lemma bound_deliver: "bound_to e h w \<Longrightarrow> bound_to e h (snd (deliver K k ev w))"
proof -
  assume b: "bound_to e h w"
  let ?w1 = "upd_socket k
     (\<lambda>s. s\<lparr>readyState := (case ev of Open \<Rightarrow> 1 | Closed \<Rightarrow> 3 | _ \<Rightarrow> readyState s)\<rparr>) w"
  have b1: "bound_to e h ?w1" using b by (auto intro!: bound_upd_socket)
  have "bound_to e h (snd (emit K k ev ?w1))"
    using b1 emit_cases [of K k ev ?w1] bound_run_handlers [OF b1, of K k "snapshot k ev ?w1" ev]
    by auto
  then show ?thesis using b by (simp add: deliver_def)
qed

lemma bound_step: "bound_to e h w \<Longrightarrow> bound_to e h (snd (step K ev w))"
proof (cases ev)
  case (Send p)
  assume "bound_to e h w"
  then show ?thesis using Send
    by (auto simp: send_def split: result.splits option.splits intro!: bound_upd_socket)
next
  case (Fire n)
  assume "bound_to e h w"
  then show ?thesis using Fire
    by (auto simp: fire_def bound_ping bound_noResponse split: option.splits timer.splits)
next
  case (PingSent t err)
  assume "bound_to e h w"
  then show ?thesis using PingSent
    by (auto simp: ping_sent_def bound_noResponse split: option.splits)
qed (auto simp: bound_connect bound_deliver disconnect_def listen_def unlisten_def Let_def
       split: option.splits intro!: bound_upd_socket)

lemma bound_run: "bound_to e h w \<Longrightarrow> bound_to e h (run K es w)"
  by (induction es arbitrary: w) (auto simp: bound_step)

lemma bound_init: "bound_to e h (WebsocketTransport e h)"
  by (simp add: WebsocketTransport_def bound_to_def debug_def)

text \<open>No event of the runtime touches the registry.\<close>

lemma listeners_simple [simp]:
  "listeners (debug d w) = listeners w"
  "listeners (setTimer t w) = listeners w"
  "listeners (clearTimeout n w) = listeners w"
  "listeners (invoke_cb cb err w) = listeners w"
  "listeners (upd_socket k f w) = listeners w"
  "listeners (connect cb w) = listeners w"
  by (cases cb; simp add: debug_def setTimer_def clearTimeout_def upd_socket_def connect_def Let_def)+

lemma listeners_onClose [simp]: "listeners (snd (onClose w)) = listeners w"
  by (simp add: onClose_def Let_def split: option.splits)

lemma listeners_noResponse [simp]: "listeners (snd (noResponse t w)) = listeners w"
  by (simp add: noResponse_def Let_def split: option.splits)

lemma listeners_ping [simp]: "listeners (snd (ping w)) = listeners w"
proof (cases "this_ws (setTimer NoResponseTimer w)")
  case None
  then show ?thesis by (simp add: ping_def Let_def)
next
  case (Some k)
  let ?w2 = "upd_socket k (lib_call WsPing) (setTimer NoResponseTimer w)"
  obtain r w3 where n: "noResponse (next_timer w) ?w2 = (r, w3)"
    by (cases "noResponse (next_timer w) ?w2")
  have "listeners w3 = listeners w"
    using listeners_noResponse [of "next_timer w" ?w2] n by simp
  with Some n show ?thesis
    by (cases r) (auto simp: ping_def ping_sent_def Let_def split: option.splits)
qed

lemma listeners_onMessage [simp]: "listeners (snd (onMessage K parsed w)) = listeners w"
  by (simp add: onMessage_def forEach_call_eq split: option.splits result.splits)

lemma listeners_run_handler [simp]: "listeners (snd (run_handler K hdl ev w)) = listeners w"
  by (cases hdl) (simp_all add: Let_def split: option.splits)

lemma listeners_run_handlers [simp]: "listeners (snd (run_handlers K k hs ev w)) = listeners w"
proof (induction hs arbitrary: w)
  case Nil
  then show ?case by simp
next
  case (Cons x hs)
  obtain n once hdl where x: "x = (n, once, hdl)" by (cases x)
  let ?w1 = "if once then upd_socket k (removeListener (n, once, hdl)) w else w"
  obtain r w2 where r: "run_handler K hdl ev ?w1 = (r, w2)"
    by (cases "run_handler K hdl ev ?w1")
  have l2: "listeners w2 = listeners w"
    using listeners_run_handler [of K hdl ev ?w1] r by simp
  show ?case
  proof (cases r)
    case (Return v)
    with x r Cons.IH [of w2] l2 show ?thesis by (simp add: Let_def)
  next
    case (Throw err)
    with x r l2 show ?thesis by (simp add: Let_def)
  qed
qed

lemma listeners_deliver [simp]: "listeners (snd (deliver K k ev w)) = listeners w"
proof -
  let ?w1 = "upd_socket k
     (\<lambda>s. s\<lparr>readyState := (case ev of Open \<Rightarrow> 1 | Closed \<Rightarrow> 3 | _ \<Rightarrow> readyState s)\<rparr>) w"
  have "listeners (snd (emit K k ev ?w1)) = listeners w"
    using emit_cases [of K k ev ?w1] listeners_run_handlers [of K k "snapshot k ev ?w1" ev ?w1]
    by auto
  then show ?thesis by (simp add: deliver_def)
qed

lemma listeners_autonomous: "autonomous ev \<Longrightarrow> listeners (snd (step K ev w)) = listeners w"
  by (cases ev) (simp_all add: fire_def ping_sent_def split: option.splits timer.splits)

lemma reconnect_socket:
  assumes "this_ws w = Some k"
      and "w' = snd (onClose w) \<or> w' = snd (noResponse t w)"
  shows "length (sockets w') = Suc (length (sockets w)) \<and> ws w' = Some (length (sockets w)) \<and>
         url (sockets w' ! length (sockets w)) = endpoint w \<and>
         hdrs (sockets w' ! length (sockets w)) = headers w"
proof -
  have a: "this_ws (debug DClosed w) = Some k"
          "this_ws (debug DNoResponse (clearTimeout t w)) = Some k"
    using assms(1)
    by (auto simp: this_ws_def debug_def clearTimeout_def split: option.splits if_splits)
  from assms(2) show ?thesis
  proof
    assume "w' = snd (onClose w)"
    then show ?thesis using a
      by (simp add: onClose_def Let_def connect_def upd_socket_def debug_def new_WebSocket_def
            nth_append)
  next
    assume "w' = snd (noResponse t w)"
    then show ?thesis using a
      by (simp add: noResponse_def Let_def connect_def upd_socket_def debug_def clearTimeout_def
            new_WebSocket_def nth_append)
  qed
qed

text \<open>
  C9. In any state \<open>w\<close> the transport constructed with endpoint \<open>e\<close> and headers \<open>h\<close> can
  reach, a reconnect by \<^verbatim>\<open>onClose\<close> (a close) or by \<^verbatim>\<open>noResponse\<close> (a liveness failure)
  makes exactly one socket, opened with \<open>e\<close> and \<open>h\<close>, and leaves the endpoint, the headers
  and the registry as they were; every socket of the state after it was opened with \<open>e\<close>
  and \<open>h\<close>; and no event of the runtime changes the registry.
\<close>

theorem reconnect_reuses_endpoint_and_keeps_registry:
  assumes "w = run K es (WebsocketTransport e h)"
      and "this_ws w = Some k"
      and "w' = snd (onClose w) \<or> w' = snd (noResponse t w)"
  shows "length (sockets w') = Suc (length (sockets w)) \<and> ws w' = Some (length (sockets w)) \<and>
         url (sockets w' ! length (sockets w)) = e \<and>
         hdrs (sockets w' ! length (sockets w)) = h \<and>
         endpoint w' = e \<and> headers w' = h \<and> listeners w' = listeners w \<and>
         list_all (\<lambda>s. url s = e \<and> hdrs s = h) (sockets w') \<and>
         (autonomous ev \<longrightarrow> listeners (snd (step K ev w)) = listeners w)"
proof -
  have b: "bound_to e h w"
    unfolding assms(1) by (rule bound_run [OF bound_init])
  have b': "bound_to e h w'"
    using assms(3) bound_onClose [OF b] bound_noResponse [OF b] by auto
  have l: "listeners w' = listeners w"
    using assms(3) by auto
  show ?thesis
    using reconnect_socket [OF assms(2) assms(3)] b b' l listeners_autonomous [of ev K w]
    by (simp add: bound_to_def)
qed

theorem reconnect_reuses_endpoint_and_keeps_registry_witness:
  "length (sockets (snd (onClose (run (\<lambda>v. []) [Connect, Emit 0 Open]
      (WebsocketTransport (JStr ''wss://example/x'') [(''X-KM-PUBLIC'', ''pub'')]))))) = 2 \<and>
   url (sockets (snd (onClose (run (\<lambda>v. []) [Connect, Emit 0 Open]
      (WebsocketTransport (JStr ''wss://example/x'') [(''X-KM-PUBLIC'', ''pub'')])))) ! 1)
     = JStr ''wss://example/x'' \<and>
   hdrs (sockets (snd (onClose (run (\<lambda>v. []) [Connect, Emit 0 Open]
      (WebsocketTransport (JStr ''wss://example/x'') [(''X-KM-PUBLIC'', ''pub'')])))) ! 1)
     = [(''X-KM-PUBLIC'', ''pub'')]"
  using reconnect_reuses_endpoint_and_keeps_registry
     [of "run (\<lambda>v. []) [Connect, Emit 0 Open]
            (WebsocketTransport (JStr ''wss://example/x'') [(''X-KM-PUBLIC'', ''pub'')])"
         "\<lambda>v. []" "[Connect, Emit 0 Open]" "JStr ''wss://example/x''" "[(''X-KM-PUBLIC'', ''pub'')]" 0
         "snd (onClose (run (\<lambda>v. []) [Connect, Emit 0 Open]
            (WebsocketTransport (JStr ''wss://example/x'') [(''X-KM-PUBLIC'', ''pub'')])))"]
  by (simp add: world_defs)

subsection \<open>start\<close>

lemma checkCredentials_disabled:
  assumes "get_prop data ''disabled'' = Return (JBool True) \<or>
           get_prop data ''pending'' = Return (JBool True)"
  shows "checkCredentials (None, data) = Return (Inl (JsError ''Interactor disabled.''))"
proof -
  from assms obtain kvs where "data = JObj kvs" by (cases data) auto
  with assms show ?thesis by (auto simp: checkCredentials_def)
qed

lemma no_transport_step: "transport a = None \<Longrightarrow> transport (snd (agent_step E ev a)) = None"
  by (cases ev) (simp_all add: agent_step_def)

lemma no_transport_run: "transport a = None \<Longrightarrow> transport (agent_run E es a) = None"
  by (induction es arbitrary: a) (simp_all add: no_transport_step)

text \<open>
  C8. The credential check replies without an HTTP error and with a body whose
  \<^verbatim>\<open>disabled\<close> or \<^verbatim>\<open>pending\<close> field is \<^verbatim>\<open>true\<close>: \<^verbatim>\<open>start\<close> on a newly constructed agent
  rejects with the error \<^verbatim>\<open>Interactor disabled.\<close> and changes nothing else; the
  \<^verbatim>\<open>transport\<close> field is not assigned, and stays unassigned whatever events follow.
\<close>

theorem start_disabled_creates_no_transport:
  assumes "get_prop data ''disabled'' = Return (JBool True) \<or>
           get_prop data ''pending'' = Return (JBool True)"
  shows "start v1 v2 (None, data) (Agent pub sec app proc) =
           (Return JUndefined,
            (Agent pub sec app proc)\<lparr>started := Rejected (JsError ''Interactor disabled.'')\<rparr>) \<and>
         transport (snd (start v1 v2 (None, data) (Agent pub sec app proc))) = None \<and>
         transport (agent_run E es (snd (start v1 v2 (None, data) (Agent pub sec app proc)))) = None"
proof -
  have s: "start v1 v2 (None, data) (Agent pub sec app proc) =
           (Return JUndefined,
            (Agent pub sec app proc)\<lparr>started := Rejected (JsError ''Interactor disabled.'')\<rparr>)"
    using checkCredentials_disabled [OF assms] by (simp add: start_def settle_def Agent_def)
  have t: "transport ((Agent pub sec app proc)
             \<lparr>started := Rejected (JsError ''Interactor disabled.'')\<rparr>) = None"
    by (simp add: Agent_def)
  show ?thesis using s t no_transport_run [OF t] by simp
qed

theorem start_disabled_creates_no_transport_witness:
  "start ''5.0'' ''1'' (None, JObj [(''disabled'', JBool True)])
       (Agent ''pub'' ''sec'' ''app'' (JObj [])) =
     (Return JUndefined,
      (Agent ''pub'' ''sec'' ''app'' (JObj []))
        \<lparr>started := Rejected (JsError ''Interactor disabled.'')\<rparr>) \<and>
   transport (snd (start ''5.0'' ''1'' (None, JObj [(''disabled'', JBool True)])
      (Agent ''pub'' ''sec'' ''app'' (JObj [])))) = None"
  using start_disabled_creates_no_transport [of "JObj [(''disabled'', JBool True)]" "''5.0''" "''1''"
     "''pub''" "''sec''" "''app''" "JObj []"]
  by (simp add: Agent_def)

end
